theory Spec2Isabelle
  imports Complex_Main "HOL-Library.Word"
begin

unbundle bit_operations_syntax

section \<open>Common types\<close>

text \<open>A Go \<^verbatim>\<open>byte\<close> is an 8-bit word. Go's \<^verbatim>\<open>int\<close> is 64 bits wide; every
  \<^verbatim>\<open>int\<close> of the code below is a byte value, a slice offset or a sum of at most
  \<^verbatim>\<open>len(frame)\<close> byte values, far from \<open>2^63\<close>, so it is modelled by \<open>int\<close> or
  \<open>nat\<close> without wrap-around.\<close>

type_synonym byte = "8 word"

text \<open>What a call can do besides returning: panic (a nil dereference, an index or a slice
  bound out of range), or stay suspended in a send on a full channel that nobody is
  receiving from.\<close>

datatype 'a outcome = Ret 'a | Panic | Blocked

definition obind :: "'a outcome \<Rightarrow> ('a \<Rightarrow> 'b outcome) \<Rightarrow> 'b outcome" where
  "obind m k = (case m of Ret x \<Rightarrow> k x | Panic \<Rightarrow> Panic | Blocked \<Rightarrow> Blocked)"

text \<open>The call returns: it neither panics nor stays suspended.\<close>

definition returns :: "'a outcome \<Rightarrow> bool" where
  "returns r = (case r of Ret x \<Rightarrow> True | Panic \<Rightarrow> False | Blocked \<Rightarrow> False)"

text \<open>\<^verbatim>\<open>xs[i]\<close> and \<^verbatim>\<open>xs[lo:hi]\<close> with Go's run-time bounds checks.\<close>

definition index :: "'a list \<Rightarrow> nat \<Rightarrow> 'a outcome" where
  "index xs i = (if i < length xs then Ret (xs ! i) else Panic)"

definition slice :: "'a list \<Rightarrow> nat \<Rightarrow> nat \<Rightarrow> 'a list outcome" where
  "slice xs lo hi =
     (if lo \<le> hi \<and> hi \<le> length xs then Ret (take (hi - lo) (drop lo xs)) else Panic)"

text \<open>The error values of the code, one constructor for each \<^verbatim>\<open>fmt.Errorf\<close> and each
  error of the bbolt library that the model distinguishes.\<close>

datatype error =
    ErrNoLengthByte byte
  | ErrInvalidPID byte
  | ErrDatabaseNotOpen
  | ErrCommit
  | ErrBucketNotFound
  | ErrKeyRequired
  | ErrKeyTooLarge
  | ErrValueTooLarge
  | ErrPortNotInitialized
  | ErrNotRunning
  | ErrWrite
  | ErrSendClearDTC error
  | ErrClearDTCForMID byte error

text \<open>\<^verbatim>\<open>common.DTCCode\<close>.\<close>

record DTCCode =
  MID :: int
  PID :: int
  SPN :: int
  FMI :: int
  OC :: int
  Timestamp :: int

text \<open>Both agents create the DTC channel with \<^verbatim>\<open>make(chan common.DTCCode, 10)\<close>. A
  channel is modelled by the list of records buffered in it, oldest first.\<close>

definition dtcChanCap :: nat where
  "dtcChanCap = 10"

text \<open>\<^verbatim>\<open>select { case ch <- dtc: default: log.Printf(...) }\<close>: the record is buffered when
  there is room and dropped otherwise.\<close>

definition send_or_drop :: "DTCCode \<Rightarrow> DTCCode list \<Rightarrow> DTCCode list" where
  "send_or_drop dtc ch = (if length ch < dtcChanCap then ch @ [dtc] else ch)"

text \<open>\<^verbatim>\<open>ch <- dtc\<close>: the record is buffered when there is room; otherwise the sender is
  suspended until a receiver takes a record.\<close>

definition send :: "DTCCode \<Rightarrow> DTCCode list \<Rightarrow> DTCCode list outcome" where
  "send dtc ch = (if length ch < dtcChanCap then Ret (ch @ [dtc]) else Blocked)"

section \<open>Metric table (\<^verbatim>\<open>ProtectedData\<close>, data.go of both agents)\<close>

text \<open>The values stored under \<^verbatim>\<open>map[string]any\<close>: a \<^verbatim>\<open>float64\<close>, \<^verbatim>\<open>nil\<close>, or the
  timestamp string added on serialisation. A \<^verbatim>\<open>float64\<close> is modelled by the real number
  it stands for; IEEE rounding is not modelled. The values the theorems below speak about
  (integers below \<open>2^53\<close> and multiples of \<open>1/8\<close>) are computed exactly by the hardware
  too.\<close>

datatype any = Float64 real | NilValue | Str string

text \<open>Go maps are reference objects: the heap holds the contents of every map object, by
  address, and \<^verbatim>\<open>make\<close> takes the next unused address.\<close>

record heap =
  maps :: "nat \<Rightarrow> (string \<rightharpoonup> any)"
  next_addr :: nat

definition make_map :: "heap \<Rightarrow> nat \<times> heap" where
  "make_map h =
     (next_addr h, h\<lparr>maps := (maps h)(next_addr h := Map.empty), next_addr := Suc (next_addr h)\<rparr>)"

text \<open>\<^verbatim>\<open>m[key] = value\<close> on the map object at address \<open>a\<close>.\<close>

definition map_assign :: "nat \<Rightarrow> string \<Rightarrow> any \<Rightarrow> heap \<Rightarrow> heap" where
  "map_assign a key v h = h\<lparr>maps := (maps h)(a := (maps h a)(key \<mapsto> v))\<rparr>"

text \<open>\<^verbatim>\<open>for k, v := range src { dst[k] = v }\<close>: every entry of \<open>src\<close> is assigned into
  \<open>dst\<close>; the keys of one map are distinct, so the order of the iteration does not
  matter.\<close>

definition range_assign :: "nat \<Rightarrow> nat \<Rightarrow> heap \<Rightarrow> heap" where
  "range_assign src dst h = h\<lparr>maps := (maps h)(dst := maps h dst ++ maps h src)\<rparr>"

text \<open>The struct holds the mutex and the map; the model is sequential, so only the
  address of the map remains.\<close>

record ProtectedData =
  Data :: nat

definition NewProtectedData :: "heap \<Rightarrow> ProtectedData \<times> heap" where
  "NewProtectedData h = (case make_map h of (a, h') \<Rightarrow> (\<lparr>Data = a\<rparr>, h'))"

definition Set :: "ProtectedData \<Rightarrow> string \<Rightarrow> any \<Rightarrow> heap \<Rightarrow> heap" where
  "Set pd key v h = map_assign (Data pd) key v h"

definition Get :: "ProtectedData \<Rightarrow> string \<Rightarrow> heap \<Rightarrow> any \<times> bool" where
  "Get pd key h =
     (case maps h (Data pd) key of Some val \<Rightarrow> (val, True) | None \<Rightarrow> (NilValue, False))"

text \<open>A sequence of \<^verbatim>\<open>Set\<close> calls on the same table, in order.\<close>

fun Set_all :: "ProtectedData \<Rightarrow> (string \<times> any) list \<Rightarrow> heap \<Rightarrow> heap" where
  "Set_all pd [] h = h"
| "Set_all pd ((key, v) # rest) h = Set_all pd rest (Set pd key v h)"

record copiedDataMarshaler =
  cdm_data :: nat

text \<open>\<^verbatim>\<open>Copy\<close> makes a new map and assigns every entry of \<^verbatim>\<open>pd.Data\<close> into it.\<close>

definition Copy :: "ProtectedData \<Rightarrow> heap \<Rightarrow> copiedDataMarshaler \<times> heap" where
  "Copy pd h =
     (case make_map h of (copiedData, h1) \<Rightarrow>
        (\<lparr>cdm_data = copiedData\<rparr>, range_assign (Data pd) copiedData h1))"

text \<open>\<^verbatim>\<open>MarshalJSON\<close> of the copy. \<open>now\<close> is the formatted clock reading
  \<^verbatim>\<open>time.Now().UTC().Format(time.RFC3339Nano)\<close>. The result is the content of
  \<^verbatim>\<open>dataToMarshal\<close>, the object that \<^verbatim>\<open>json.Marshal\<close> encodes: the members of the
  emitted JSON object.\<close>

definition copied_MarshalJSON ::
  "copiedDataMarshaler \<Rightarrow> string \<Rightarrow> heap \<Rightarrow> (string \<rightharpoonup> any) \<times> heap" where
  "copied_MarshalJSON m now h =
     (case make_map h of (dataToMarshal, h1) \<Rightarrow>
        let h2 = range_assign (cdm_data m) dataToMarshal h1;
            h3 = map_assign dataToMarshal ''timestamp'' (Str now) h2
        in (maps h3 dataToMarshal, h3))"

text \<open>\<^verbatim>\<open>MarshalJSON\<close> of the live table does the same from \<^verbatim>\<open>pd.Data\<close>.\<close>

definition MarshalJSON :: "ProtectedData \<Rightarrow> string \<Rightarrow> heap \<Rightarrow> (string \<rightharpoonup> any) \<times> heap" where
  "MarshalJSON pd now h =
     (case make_map h of (dataToMarshal, h1) \<Rightarrow>
        let h2 = range_assign (Data pd) dataToMarshal h1;
            h3 = map_assign dataToMarshal ''timestamp'' (Str now) h2
        in (maps h3 dataToMarshal, h3))"

section \<open>DTC deduplication store (pkg/storage/dtc.go)\<close>

text \<open>The bbolt database, as far as the store uses it: whether the handle is open,
  whether the disk accepts a commit, and the buckets of the root with their keys. The
  library is not part of the repository; its operations are modelled by their documented
  behaviour.\<close>

type_synonym bucket = "string \<rightharpoonup> byte list"
type_synonym tx = "string \<rightharpoonup> bucket"

record DB =
  opened :: bool
  commit_ok :: bool
  buckets :: tx

definition bucketKey :: string where
  "bucketKey = ''active_dtcs''"

text \<open>\<^verbatim>\<open>db.Update(fn)\<close>: begins a write transaction (an error when the database is not
  open), runs \<open>fn\<close>, rolls back when \<open>fn\<close> returns an error or panics (the panic goes
  on to the caller), commits otherwise. \<open>r0\<close> is the initial value of the variables that
  the closure captures and \<open>fn\<close> returns their final value.\<close>

definition Update ::
  "DB \<Rightarrow> 'r \<Rightarrow> (tx \<Rightarrow> ('r \<times> tx \<times> error option) outcome) \<Rightarrow> ('r \<times> DB \<times> error option) outcome" where
  "Update d r0 fn =
     (if \<not> opened d then Ret (r0, d, Some ErrDatabaseNotOpen)
      else obind (fn (buckets d)) (\<lambda>(r, t, err).
        case err of
          Some e \<Rightarrow> Ret (r, d, Some e)
        | None \<Rightarrow>
            if commit_ok d then Ret (r, d\<lparr>buckets := t\<rparr>, None)
            else Ret (r, d, Some ErrCommit)))"

text \<open>\<^verbatim>\<open>b.Get\<close>, \<^verbatim>\<open>b.Put\<close> and \<^verbatim>\<open>b.Delete\<close> on the bucket \<^verbatim>\<open>b := tx.Bucket(name)\<close>, which
  is \<^verbatim>\<open>nil\<close> when the bucket does not exist; a method call on the nil bucket dereferences
  it and panics.\<close>

definition Bucket_Get :: "tx \<Rightarrow> string \<Rightarrow> string \<Rightarrow> byte list option outcome" where
  "Bucket_Get t name key = (case t name of None \<Rightarrow> Panic | Some b \<Rightarrow> Ret (b key))"

definition Bucket_Put :: "tx \<Rightarrow> string \<Rightarrow> string \<Rightarrow> byte list \<Rightarrow> (tx \<times> error option) outcome" where
  "Bucket_Put t name key val =
     (case t name of
        None \<Rightarrow> Panic
      | Some b \<Rightarrow>
          if key = [] then Ret (t, Some ErrKeyRequired)
          else if length key > 32768 then Ret (t, Some ErrKeyTooLarge)
          else if length val > 2147483646 then Ret (t, Some ErrValueTooLarge)
          else Ret (t(name \<mapsto> b(key \<mapsto> val)), None))"

definition Bucket_Delete :: "tx \<Rightarrow> string \<Rightarrow> string \<Rightarrow> (tx \<times> error option) outcome" where
  "Bucket_Delete t name key =
     (case t name of None \<Rightarrow> Panic | Some b \<Rightarrow> Ret (t(name \<mapsto> b(key := None)), None))"

definition DeleteBucket :: "tx \<Rightarrow> string \<Rightarrow> tx \<times> error option" where
  "DeleteBucket t name =
     (case t name of None \<Rightarrow> (t, Some ErrBucketNotFound) | Some b \<Rightarrow> (t(name := None), None))"

text \<open>\<^verbatim>\<open>fmt.Sprintf("%d:%d", spn, fmi)\<close>.\<close>

definition digit :: "nat \<Rightarrow> char" where
  "digit d = char_of (48 + d)"

function decimal :: "nat \<Rightarrow> string" where
  "decimal n = (if n < 10 then [digit n] else decimal (n div 10) @ [digit (n mod 10)])"
  by pat_completeness auto
termination
  by (relation "measure id") auto

definition dtc_key :: "32 word \<Rightarrow> 8 word \<Rightarrow> string" where
  "dtc_key spn fmi = decimal (unat spn) @ '':'' @ decimal (unat fmi)"

definition IsNew :: "DB \<Rightarrow> 32 word \<Rightarrow> 8 word \<Rightarrow> (bool \<times> DB \<times> error option) outcome" where
  "IsNew d spn fmi =
     (let key = dtc_key spn fmi in
      Update d False (\<lambda>t.
        obind (Bucket_Get t bucketKey key) (\<lambda>got.
          if got = None then
            obind (Bucket_Put t bucketKey key [1]) (\<lambda>(t', err). Ret (True, t', err))
          else Ret (False, t, None))))"

definition Remove :: "DB \<Rightarrow> 32 word \<Rightarrow> 8 word \<Rightarrow> (DB \<times> error option) outcome" where
  "Remove d spn fmi =
     (let key = dtc_key spn fmi in
      obind (Update d () (\<lambda>t.
               obind (Bucket_Delete t bucketKey key) (\<lambda>(t', err). Ret ((), t', err))))
        (\<lambda>(u, d', err). Ret (d', err)))"

definition ClearAll :: "DB \<Rightarrow> (DB \<times> error option) outcome" where
  "ClearAll d =
     obind (Update d () (\<lambda>t. case DeleteBucket t bucketKey of (t', err) \<Rightarrow> Ret ((), t', err)))
       (\<lambda>(u, d', err). Ret (d', err))"

section \<open>J1587 agent (cmd/agent-j1587)\<close>

definition PID_VEHICLE_SPEED :: int where "PID_VEHICLE_SPEED = 84"
definition PID_ENGINE_RPM :: int where "PID_ENGINE_RPM = 190"
definition PID_COOLANT_TEMP :: int where "PID_COOLANT_TEMP = 110"
definition PID_OIL_PRESSURE :: int where "PID_OIL_PRESSURE = 100"
definition PID_ENGINE_LOAD :: int where "PID_ENGINE_LOAD = 91"
definition PID_FUEL_LEVEL :: int where "PID_FUEL_LEVEL = 96"
definition PID_BATTERY_VOLTAGE :: int where "PID_BATTERY_VOLTAGE = 168"
definition PID_AMBIENT_TEMP :: int where "PID_AMBIENT_TEMP = 171"
definition PID_TOTAL_DISTANCE :: int where "PID_TOTAL_DISTANCE = 245"
definition PID_ACTIVE_DTC :: int where "PID_ACTIVE_DTC = 194"
definition PID_PREVIOUSLY_ACTIVE_DTC :: int where "PID_PREVIOUSLY_ACTIVE_DTC = 195"
definition PID_COMMAND_CLEAR_DTCS :: byte where "PID_COMMAND_CLEAR_DTCS = 250"

text \<open>The serial port: the frames written to it so far and whether a \<^verbatim>\<open>Write\<close>
  succeeds.\<close>

record Port =
  written :: "byte list list"
  write_ok :: bool

text \<open>The \<^verbatim>\<open>Bus\<close> of the J1587 agent. \<open>mem\<close> is the heap that holds the map of
  \<open>data\<close>; the frame channel and the stop channel are not modelled.\<close>

record Bus =
  port :: "Port option"
  data :: ProtectedData
  isRunning :: bool
  dtcChan :: "DTCCode list"
  db :: "DB option"
  mem :: heap

subsection \<open>Checksum\<close>

text \<open>\<^verbatim>\<open>sum := 0; for _, b := range frame { sum += int(b) }\<close>\<close>

definition byte_sum :: "byte list \<Rightarrow> int" where
  "byte_sum frame = foldl (\<lambda>sum b. sum + uint b) 0 frame"

text \<open>\<^verbatim>\<open>return byte(256 - (sum % 256))\<close>: the conversion to \<^verbatim>\<open>byte\<close> keeps the low
  eight bits. The sum is never negative, so Go's truncating \<^verbatim>\<open>%\<close> is \<open>mod\<close>.\<close>

definition calculateJ1587Checksum :: "byte list \<Rightarrow> byte" where
  "calculateJ1587Checksum frame = word_of_int (256 - (byte_sum frame mod 256))"

definition validateJ1587Checksum :: "byte list \<Rightarrow> bool" where
  "validateJ1587Checksum frame =
     (if length frame < 3 then False else byte_sum frame mod 256 = 0)"

subsection \<open>Sending frames and the clear-DTCs command\<close>

text \<open>The bytes \<^verbatim>\<open>SendFrame\<close> builds: MID, PID, data, checksum.\<close>

definition frameWithChecksum :: "byte \<Rightarrow> byte \<Rightarrow> byte list \<Rightarrow> byte list" where
  "frameWithChecksum mid pid data_bytes =
     (let frame = (([] @ [mid]) @ [pid]) @ data_bytes;
          checksum = calculateJ1587Checksum frame
      in frame @ [checksum])"

definition SendFrame :: "Bus \<Rightarrow> byte \<Rightarrow> byte \<Rightarrow> byte list \<Rightarrow> Bus \<times> error option" where
  "SendFrame p mid pid data_bytes =
     (case port p of
        None \<Rightarrow> (p, Some ErrPortNotInitialized)
      | Some prt \<Rightarrow>
          if \<not> isRunning p then (p, Some ErrNotRunning)
          else if write_ok prt then
            (p\<lparr>port := Some (prt\<lparr>written := written prt @ [frameWithChecksum mid pid data_bytes]\<rparr>)\<rparr>,
             None)
          else (p, Some ErrWrite))"

text \<open>An error of \<^verbatim>\<open>storage.ClearAll\<close> is logged only.\<close>

definition ClearActiveDTCs :: "Bus \<Rightarrow> byte \<Rightarrow> (Bus \<times> error option) outcome" where
  "ClearActiveDTCs p targetMID =
     (case SendFrame p targetMID PID_COMMAND_CLEAR_DTCS [] of
        (p', Some err) \<Rightarrow> Ret (p', Some (ErrSendClearDTC err))
      | (p', None) \<Rightarrow>
          (case db p' of
             None \<Rightarrow> Ret (p', None)
           | Some d \<Rightarrow> obind (ClearAll d) (\<lambda>(d', err). Ret (p'\<lparr>db := Some d'\<rparr>, None))))"

text \<open>\<^verbatim>\<open>common.ServerCommand\<close> (common/command.go) and the handler of main.go.\<close>

definition CommandTypeClearDTCs :: string where
  "CommandTypeClearDTCs = ''clear_dtcs''"

record CommandParams =
  TargetMID :: "byte option"
  ParamSPN :: "int option"
  ParamFMI :: "int option"

record ServerCommand =
  Type :: string
  Params :: CommandParams

definition handleMQTTCommand :: "Bus \<Rightarrow> ServerCommand \<Rightarrow> (Bus \<times> error option) outcome" where
  "handleMQTTCommand bus cmd =
     (if Type cmd = ''clear_dtc'' then
        (let targetMID = (case TargetMID (Params cmd) of Some m \<Rightarrow> m | None \<Rightarrow> 128) in
         obind (ClearActiveDTCs bus targetMID) (\<lambda>(bus', err).
           case err of
             Some e \<Rightarrow> Ret (bus', Some (ErrClearDTCForMID targetMID e))
           | None \<Rightarrow> Ret (bus', None)))
      else Ret (bus, None))"

subsection \<open>Deduplication and publication of DTCs\<close>

text \<open>One turn of the loop of \<^verbatim>\<open>StartProcessingDTCs\<close> for each record received from
  \<^verbatim>\<open>p.dtcChan\<close>; the loop returns when the stop channel or the DTC channel is closed,
  here when the received records are used up. \<open>pub\<close> collects the records handed to
  \<^verbatim>\<open>mqttClient.PublishDTC\<close>. \<^verbatim>\<open>storage.IsNew\<close> dereferences \<^verbatim>\<open>p.db\<close>.\<close>

fun StartProcessingDTCs ::
  "Bus \<Rightarrow> DTCCode list \<Rightarrow> DTCCode list \<Rightarrow> (Bus \<times> DTCCode list) outcome" where
  "StartProcessingDTCs p [] pub = Ret (p, pub)"
| "StartProcessingDTCs p (dtc # received) pub =
     (case db p of
        None \<Rightarrow> Panic
      | Some d \<Rightarrow>
          (case IsNew d (word_of_int (SPN dtc)) (word_of_int (FMI dtc)) of
             Panic \<Rightarrow> Panic
           | Blocked \<Rightarrow> Blocked
           | Ret (isNew, d', err) \<Rightarrow>
               if err \<noteq> None then StartProcessingDTCs (p\<lparr>db := Some d'\<rparr>) received pub
               else if isNew then StartProcessingDTCs (p\<lparr>db := Some d'\<rparr>) received (pub @ [dtc])
               else StartProcessingDTCs (p\<lparr>db := Some d'\<rparr>) received pub))"

subsection \<open>Frame decoder\<close>

text \<open>The result is \<open>Inl\<close> the error or \<open>Inr\<close> the length.\<close>

definition getPIDDataLength :: "byte \<Rightarrow> byte list \<Rightarrow> nat \<Rightarrow> (error + nat) outcome" where
  "getPIDDataLength pid data_bytes offset =
     (if 0 \<le> pid \<and> pid \<le> 127 then Ret (Inr 1)
      else if 128 \<le> pid \<and> pid \<le> 191 then Ret (Inr 2)
      else if 192 \<le> pid \<and> pid \<le> 253 then
        (if offset \<ge> length data_bytes then Ret (Inl (ErrNoLengthByte pid))
         else obind (index data_bytes offset) (\<lambda>b. Ret (Inr (unat b))))
      else Ret (Inl (ErrInvalidPID pid)))"

text \<open>\<^verbatim>\<open>p.data.Set(key, value)\<close> on the bus.\<close>

definition set_metric :: "string \<Rightarrow> any \<Rightarrow> Bus \<Rightarrow> Bus" where
  "set_metric key v p = p\<lparr>mem := Set (data p) key v (mem p)\<rparr>"

text \<open>\<open>now\<close> is the clock reading \<^verbatim>\<open>time.Now().UnixNano()\<close>. An unknown PID is logged
  only.\<close>

definition processPIDData :: "int \<Rightarrow> int \<Rightarrow> int \<Rightarrow> byte list \<Rightarrow> Bus \<Rightarrow> Bus outcome" where
  "processPIDData now mid pid paramData p =
     (if pid = PID_VEHICLE_SPEED then
        (if length paramData \<ge> 1 then
           obind (index paramData 0) (\<lambda>b0.
             Ret (set_metric ''Speed'' (Float64 (of_int (uint b0))) p))
         else Ret p)
      else if pid = PID_ENGINE_RPM then
        (if length paramData \<ge> 2 then
           obind (index paramData 0) (\<lambda>b0. obind (index paramData 1) (\<lambda>b1.
             Ret (set_metric ''EngineRPM'' (Float64 (of_int ((uint b0 * 256 + uint b1) div 8))) p)))
         else Ret p)
      else if pid = PID_COOLANT_TEMP then
        (if length paramData \<ge> 1 then
           obind (index paramData 0) (\<lambda>b0.
             Ret (set_metric ''EngineCoolantTemp'' (Float64 (of_int (uint b0 - 40))) p))
         else Ret p)
      else if pid = PID_OIL_PRESSURE then
        (if length paramData \<ge> 1 then
           obind (index paramData 0) (\<lambda>b0.
             Ret (set_metric ''EngineOilPressure'' (Float64 (of_int (uint b0) * 4.0)) p))
         else Ret p)
      else if pid = PID_ENGINE_LOAD then
        (if length paramData \<ge> 1 then
           obind (index paramData 0) (\<lambda>b0.
             Ret (set_metric ''EngineLoad'' (Float64 (of_int (uint b0))) p))
         else Ret p)
      else if pid = PID_FUEL_LEVEL then
        (if length paramData \<ge> 1 then
           obind (index paramData 0) (\<lambda>b0.
             Ret (set_metric ''FuelLevel'' (Float64 (of_int (uint b0) / 2.55)) p))
         else Ret p)
      else if pid = PID_BATTERY_VOLTAGE then
        (if length paramData \<ge> 1 then
           obind (index paramData 0) (\<lambda>b0.
             Ret (set_metric ''BatteryVoltage'' (Float64 (of_int (uint b0) * 0.1)) p))
         else Ret p)
      else if pid = PID_AMBIENT_TEMP then
        (if length paramData \<ge> 1 then
           obind (index paramData 0) (\<lambda>b0.
             Ret (set_metric ''AmbientAirTemp'' (Float64 (of_int (uint b0 - 40))) p))
         else Ret p)
      else if pid = PID_TOTAL_DISTANCE then
        (if length paramData \<ge> 4 then
           obind (index paramData 0) (\<lambda>b0. obind (index paramData 1) (\<lambda>b1.
           obind (index paramData 2) (\<lambda>b2. obind (index paramData 3) (\<lambda>b3.
             Ret (set_metric ''TotalDistance''
                    (Float64 (of_int (push_bit 24 (uint b0) OR push_bit 16 (uint b1)
                                      OR push_bit 8 (uint b2) OR uint b3) * 0.1)) p)))))
         else Ret p)
      else if pid = PID_ACTIVE_DTC \<or> pid = PID_PREVIOUSLY_ACTIVE_DTC then
        (if length paramData \<ge> 3 then
           obind (index paramData 0) (\<lambda>b0. obind (index paramData 1) (\<lambda>fmiAndPidHigh.
             let dtcCodeRaw = uint b0;
                 fmi = uint (fmiAndPidHigh AND 0x0F);
                 dtc = \<lparr>MID = mid, PID = pid, SPN = dtcCodeRaw, FMI = fmi, OC = 0,
                        Timestamp = now\<rparr>
             in Ret (p\<lparr>dtcChan := send_or_drop dtc (dtcChan p)\<rparr>)))
         else Ret p)
      else Ret p)"

text \<open>One turn of the PID/data walk of \<^verbatim>\<open>parseFrame\<close> from \<open>offset0\<close>: \<open>None\<close> when
  the turn ends in \<^verbatim>\<open>break\<close>, otherwise the PID, \<^verbatim>\<open>paramData\<close> and the offset after
  the block.\<close>

definition walk_body :: "byte list \<Rightarrow> nat \<Rightarrow> (byte \<times> byte list \<times> nat) option outcome" where
  "walk_body data_bytes offset0 =
     obind (index data_bytes offset0) (\<lambda>pid.
       let offset = offset0 + 1 in
       obind (getPIDDataLength pid data_bytes offset) (\<lambda>r.
         case r of
           Inl err \<Rightarrow> Ret None
         | Inr dataLength0 \<Rightarrow>
             obind (if 192 \<le> pid \<and> pid \<le> 253 then
                      (if offset \<ge> length data_bytes then Ret None
                       else obind (index data_bytes offset) (\<lambda>b. Ret (Some (unat b, offset + 1))))
                    else Ret (Some (dataLength0, offset)))
               (\<lambda>r2. case r2 of
                   None \<Rightarrow> Ret None
                 | Some (dataLength, offset) \<Rightarrow>
                     if offset + dataLength > length data_bytes then Ret None
                     else obind (slice data_bytes offset (offset + dataLength)) (\<lambda>paramData.
                            Ret (Some (pid, paramData, offset + dataLength))))))"

text \<open>The walk, with the per-PID decoder \<open>f\<close> as a parameter; \<open>f\<close> also receives the
  offset of the block, which selects the clock reading of that turn.\<close>

function walk ::
  "(nat \<Rightarrow> int \<Rightarrow> int \<Rightarrow> byte list \<Rightarrow> 's \<Rightarrow> 's outcome) \<Rightarrow> int \<Rightarrow> byte list \<Rightarrow> nat \<Rightarrow> 's \<Rightarrow> 's outcome" where
  "walk f mid data_bytes offset st =
     (if offset < length data_bytes then
        (case walk_body data_bytes offset of
           Ret None \<Rightarrow> Ret st
         | Ret (Some (pid, paramData, offset')) \<Rightarrow>
             (case f offset mid (uint pid) paramData st of
                Ret st' \<Rightarrow> walk f mid data_bytes offset' st'
              | Panic \<Rightarrow> Panic
              | Blocked \<Rightarrow> Blocked)
         | Panic \<Rightarrow> Panic
         | Blocked \<Rightarrow> Blocked)
      else Ret st)"
  by pat_completeness auto
termination
  by (relation "measure (\<lambda>(f, mid, data_bytes, offset, st). length data_bytes - offset)")
     (auto simp: walk_body_def obind_def index_def slice_def getPIDDataLength_def Let_def
           split: if_splits outcome.splits sum.splits option.splits)

text \<open>\<^verbatim>\<open>parseFrame\<close> with the per-PID decoder as a parameter, and \<^verbatim>\<open>parseFrame\<close> itself,
  which decodes with \<^verbatim>\<open>processPIDData\<close>. \<open>now k\<close> is the clock reading while the block
  at offset \<open>k\<close> is decoded.\<close>

definition parseFrame_with ::
  "(nat \<Rightarrow> int \<Rightarrow> int \<Rightarrow> byte list \<Rightarrow> 's \<Rightarrow> 's outcome) \<Rightarrow> byte list \<Rightarrow> 's \<Rightarrow> 's outcome" where
  "parseFrame_with f frame st =
     (if length frame < 3 then Ret st
      else if \<not> validateJ1587Checksum frame then Ret st
      else obind (index frame 0) (\<lambda>b.
             let mid = uint b in
             obind (slice frame 1 (length frame - 1)) (\<lambda>data_bytes.
               walk f mid data_bytes 0 st)))"

definition parseFrame :: "(nat \<Rightarrow> int) \<Rightarrow> byte list \<Rightarrow> Bus \<Rightarrow> Bus outcome" where
  "parseFrame now frame p = parseFrame_with (\<lambda>k. processPIDData (now k)) frame p"

text \<open>The decoder that only records the blocks it is given: the (MID, PID, data) triples
  that a frame decodes to.\<close>

definition record_block ::
  "nat \<Rightarrow> int \<Rightarrow> int \<Rightarrow> byte list \<Rightarrow> (int \<times> int \<times> byte list) list \<Rightarrow> (int \<times> int \<times> byte list) list outcome" where
  "record_block k mid pid paramData blocks = Ret (blocks @ [(mid, pid, paramData)])"

definition decoded_blocks :: "byte list \<Rightarrow> (int \<times> int \<times> byte list) list outcome" where
  "decoded_blocks frame = parseFrame_with record_block frame []"

section \<open>J1939 agent: the frame processor\<close>

definition pgnEEC1 :: "32 word" where "pgnEEC1 = 0xF004"
definition pgnLFE :: "32 word" where "pgnLFE = 0xFEF2"
definition pgnGPS :: "32 word" where "pgnGPS = 0xFEF1"
definition pgnAmb :: "32 word" where "pgnAmb = 0xFEF5"
definition pgnDM1 :: "32 word" where "pgnDM1 = 0xFECA"
definition pgnDM2 :: "32 word" where "pgnDM2 = 0xFECB"

text \<open>\<open>fp_mem\<close> is the heap that holds the map of \<open>fp_data\<close>.\<close>

record FrameProcessor =
  fp_data :: ProtectedData
  fp_dtcChan :: "DTCCode list"
  fp_db :: "DB option"
  fp_mem :: heap

text \<open>\<^verbatim>\<open>fp.data.Set(key, value)\<close>.\<close>

definition fp_set :: "string \<Rightarrow> any \<Rightarrow> FrameProcessor \<Rightarrow> FrameProcessor" where
  "fp_set key v fp = fp\<lparr>fp_mem := Set (fp_data fp) key v (fp_mem fp)\<rparr>"

text \<open>\<^verbatim>\<open>binary.LittleEndian.Uint16\<close> and \<^verbatim>\<open>Uint32\<close>.\<close>

definition LittleEndian_Uint16 :: "byte list \<Rightarrow> 16 word outcome" where
  "LittleEndian_Uint16 b =
     obind (index b 1) (\<lambda>b1. obind (index b 0) (\<lambda>b0.
       Ret (ucast b0 OR push_bit 8 (ucast b1))))"

definition LittleEndian_Uint32 :: "byte list \<Rightarrow> 32 word outcome" where
  "LittleEndian_Uint32 b =
     obind (index b 3) (\<lambda>b3. obind (index b 0) (\<lambda>b0.
     obind (index b 1) (\<lambda>b1. obind (index b 2) (\<lambda>b2.
       Ret (ucast b0 OR push_bit 8 (ucast b1) OR push_bit 16 (ucast b2) OR push_bit 24 (ucast b3))))))"

definition parseEEC1 :: "byte list \<Rightarrow> FrameProcessor \<Rightarrow> FrameProcessor outcome" where
  "parseEEC1 data_bytes fp =
     (if length data_bytes < 5 then Ret fp
      else
        obind (index data_bytes 3) (\<lambda>d3. obind (index data_bytes 4) (\<lambda>d4.
          let fp1 =
                (if d3 \<noteq> 0xFF \<or> d4 \<noteq> 0xFF then
                   (let rpmRaw = (ucast d3 :: 16 word) OR push_bit 8 (ucast d4 :: 16 word);
                        rpm = of_int (uint rpmRaw) * 0.125
                    in fp_set ''EngineRPM'' (Float64 rpm) fp)
                 else fp_set ''EngineRPM'' NilValue fp)
          in
          obind (index data_bytes 2) (\<lambda>d2.
            if d2 \<noteq> 0xFF then
              (let load = of_int (uint d2) - 125.0
               in Ret (fp_set ''EngineLoad'' (Float64 load) fp1))
            else Ret (fp_set ''EngineLoad'' NilValue fp1)))))"

definition all_FF :: "byte list \<Rightarrow> nat \<Rightarrow> bool outcome" where
  "all_FF data_bytes k =
     obind (index data_bytes k) (\<lambda>a. obind (index data_bytes (k + 1)) (\<lambda>b.
     obind (index data_bytes (k + 2)) (\<lambda>c. obind (index data_bytes (k + 3)) (\<lambda>d.
       Ret (a = 0xFF \<and> b = 0xFF \<and> c = 0xFF \<and> d = 0xFF)))))"

definition parseVehiclePosition :: "byte list \<Rightarrow> FrameProcessor \<Rightarrow> FrameProcessor outcome" where
  "parseVehiclePosition data_bytes fp =
     (if length data_bytes < 8 then Ret fp
      else
        obind (all_FF data_bytes 0) (\<lambda>latNA.
        obind (if \<not> latNA then
                 obind (slice data_bytes 0 4) (\<lambda>s. obind (LittleEndian_Uint32 s) (\<lambda>latRaw.
                   Ret (fp_set ''Latitude'' (Float64 (of_int (sint latRaw) * (1 / 10000000))) fp)))
               else Ret (fp_set ''Latitude'' NilValue fp)) (\<lambda>fp1.
        obind (all_FF data_bytes 4) (\<lambda>lonNA.
          if \<not> lonNA then
            obind (slice data_bytes 4 8) (\<lambda>s. obind (LittleEndian_Uint32 s) (\<lambda>lonRaw.
              Ret (fp_set ''Longitude'' (Float64 (of_int (sint lonRaw) * (1 / 10000000))) fp1)))
          else Ret (fp_set ''Longitude'' NilValue fp1)))))"

definition parseFuelConsumption :: "byte list \<Rightarrow> FrameProcessor \<Rightarrow> FrameProcessor outcome" where
  "parseFuelConsumption data_bytes fp =
     (if length data_bytes < 2 then Ret fp
      else
        obind (index data_bytes 0) (\<lambda>d0. obind (index data_bytes 1) (\<lambda>d1.
          if d0 \<noteq> 0xFF \<or> d1 \<noteq> 0xFF then
            obind (slice data_bytes 0 2) (\<lambda>s. obind (LittleEndian_Uint16 s) (\<lambda>fuelRateRaw.
              Ret (fp_set ''FuelConsumption'' (Float64 (of_int (uint fuelRateRaw) * 0.05)) fp)))
          else Ret (fp_set ''FuelConsumption'' NilValue fp))))"

definition parseAmbientConditions :: "byte list \<Rightarrow> FrameProcessor \<Rightarrow> FrameProcessor outcome" where
  "parseAmbientConditions data_bytes fp =
     (if length data_bytes < 2 then Ret fp
      else
        obind (index data_bytes 0) (\<lambda>d0. obind (index data_bytes 1) (\<lambda>d1.
          if d0 = 0xFF \<and> d1 = 0xFF then Ret (fp_set ''AmbientAirTemp'' NilValue fp)
          else
            obind (slice data_bytes 0 2) (\<lambda>s. obind (LittleEndian_Uint16 s) (\<lambda>tempRawUnsigned.
              Ret (fp_set ''AmbientAirTemp''
                     (Float64 (of_int (uint tempRawUnsigned) * 0.03125 - 273.0)) fp))))))"

text \<open>The four bytes of one DTC entry at \<open>offset\<close>: SPN, FMI and occurrence count.\<close>

definition DM_entry :: "byte list \<Rightarrow> nat \<Rightarrow> (32 word \<times> 8 word \<times> 8 word) outcome" where
  "DM_entry data_bytes offset =
     obind (index data_bytes offset) (\<lambda>e0. obind (index data_bytes (offset + 1)) (\<lambda>e1.
     obind (index data_bytes (offset + 2)) (\<lambda>e2. obind (index data_bytes (offset + 3)) (\<lambda>e3.
       let spnLow = (ucast e0 :: 16 word);
           spnMid = (ucast e1 :: 16 word);
           spnHighBits = drop_bit 5 e2;
           spn = (ucast spnLow :: 32 word) OR push_bit 8 (ucast spnMid :: 32 word)
                   OR push_bit 16 (ucast spnHighBits :: 32 word);
           fmi = e2 AND 0x1F;
           oc = e3 AND 0x7F
       in Ret (spn, fmi, oc)))))"

text \<open>How one turn of a loop ends: \<^verbatim>\<open>break\<close>, or on to the next turn (\<^verbatim>\<open>continue\<close> or
  the end of the body).\<close>

datatype 'a loop_step = Break 'a | Continue 'a

text \<open>One turn of the loop of \<^verbatim>\<open>parseDM1\<close> for entry \<open>i\<close>; \<open>now i\<close> is the clock
  reading of that turn. The record is skipped when the store answers, without an error,
  that it is not new; it is sent when the store reports an error, and when there is no
  store.\<close>

definition parseDM1_body ::
  "(nat \<Rightarrow> int) \<Rightarrow> byte list \<Rightarrow> 8 word \<Rightarrow> nat \<Rightarrow> FrameProcessor \<Rightarrow> FrameProcessor loop_step outcome" where
  "parseDM1_body now data_bytes sa i fp =
     (let offset = 2 + i * 4 in
      if offset + 3 \<ge> length data_bytes then Ret (Break fp)
      else
        obind (DM_entry data_bytes offset) (\<lambda>(spn, fmi, oc).
        obind (case fp_db fp of
                 Some d \<Rightarrow>
                   obind (IsNew d spn fmi) (\<lambda>(isNew, d', err).
                     Ret (err = None \<and> \<not> isNew, fp\<lparr>fp_db := Some d'\<rparr>))
               | None \<Rightarrow> Ret (False, fp)) (\<lambda>(skip, fp1).
          if skip then Ret (Continue fp1)
          else
            (let dtc = \<lparr>MID = uint sa, PID = 0, SPN = uint spn, FMI = uint fmi, OC = uint oc,
                        Timestamp = now i\<rparr>
             in obind (send dtc (fp_dtcChan fp1)) (\<lambda>ch.
                  Ret (Continue (fp1\<lparr>fp_dtcChan := ch\<rparr>)))))))"

function parseDM1_loop ::
  "(nat \<Rightarrow> int) \<Rightarrow> byte list \<Rightarrow> 8 word \<Rightarrow> nat \<Rightarrow> nat \<Rightarrow> FrameProcessor \<Rightarrow> FrameProcessor outcome" where
  "parseDM1_loop now data_bytes sa numDTCs i fp =
     (if i < numDTCs then
        (case parseDM1_body now data_bytes sa i fp of
           Ret (Break fp') \<Rightarrow> Ret fp'
         | Ret (Continue fp') \<Rightarrow> parseDM1_loop now data_bytes sa numDTCs (i + 1) fp'
         | Panic \<Rightarrow> Panic
         | Blocked \<Rightarrow> Blocked)
      else Ret fp)"
  by pat_completeness auto
termination
  by (relation "measure (\<lambda>(now, data_bytes, sa, numDTCs, i, fp). numDTCs - i)") auto

definition parseDM1 :: "(nat \<Rightarrow> int) \<Rightarrow> byte list \<Rightarrow> 8 word \<Rightarrow> FrameProcessor \<Rightarrow> FrameProcessor outcome" where
  "parseDM1 now data_bytes sa fp =
     (if length data_bytes < 6 then Ret fp
      else
        (let numDTCs = (length data_bytes - 2) div 4
         in parseDM1_loop now data_bytes sa numDTCs 0 fp))"

text \<open>\<^verbatim>\<open>parseDM2\<close> has the same loop without the store.\<close>

definition parseDM2_body ::
  "(nat \<Rightarrow> int) \<Rightarrow> byte list \<Rightarrow> 8 word \<Rightarrow> nat \<Rightarrow> FrameProcessor \<Rightarrow> FrameProcessor loop_step outcome" where
  "parseDM2_body now data_bytes sa i fp =
     (let offset = 2 + i * 4 in
      if offset + 3 \<ge> length data_bytes then Ret (Break fp)
      else
        obind (DM_entry data_bytes offset) (\<lambda>(spn, fmi, oc).
          let dtc = \<lparr>MID = uint sa, PID = 0, SPN = uint spn, FMI = uint fmi, OC = uint oc,
                     Timestamp = now i\<rparr>
          in obind (send dtc (fp_dtcChan fp)) (\<lambda>ch.
               Ret (Continue (fp\<lparr>fp_dtcChan := ch\<rparr>)))))"

function parseDM2_loop ::
  "(nat \<Rightarrow> int) \<Rightarrow> byte list \<Rightarrow> 8 word \<Rightarrow> nat \<Rightarrow> nat \<Rightarrow> FrameProcessor \<Rightarrow> FrameProcessor outcome" where
  "parseDM2_loop now data_bytes sa numDTCs i fp =
     (if i < numDTCs then
        (case parseDM2_body now data_bytes sa i fp of
           Ret (Break fp') \<Rightarrow> Ret fp'
         | Ret (Continue fp') \<Rightarrow> parseDM2_loop now data_bytes sa numDTCs (i + 1) fp'
         | Panic \<Rightarrow> Panic
         | Blocked \<Rightarrow> Blocked)
      else Ret fp)"
  by pat_completeness auto
termination
  by (relation "measure (\<lambda>(now, data_bytes, sa, numDTCs, i, fp). numDTCs - i)") auto

definition parseDM2 :: "(nat \<Rightarrow> int) \<Rightarrow> byte list \<Rightarrow> 8 word \<Rightarrow> FrameProcessor \<Rightarrow> FrameProcessor outcome" where
  "parseDM2 now data_bytes sa fp =
     (if length data_bytes < 6 then Ret fp
      else
        (let numDTCs = (length data_bytes - 2) div 4
         in parseDM2_loop now data_bytes sa numDTCs 0 fp))"

text \<open>An unknown PGN is ignored.\<close>

definition ProcessFrame ::
  "(nat \<Rightarrow> int) \<Rightarrow> 32 word \<Rightarrow> 8 word \<Rightarrow> byte list \<Rightarrow> FrameProcessor \<Rightarrow> FrameProcessor outcome" where
  "ProcessFrame now pgn sa data_bytes fp =
     (if pgn = pgnEEC1 then parseEEC1 data_bytes fp
      else if pgn = pgnGPS then parseVehiclePosition data_bytes fp
      else if pgn = pgnLFE then parseFuelConsumption data_bytes fp
      else if pgn = pgnAmb then parseAmbientConditions data_bytes fp
      else if pgn = pgnDM1 then parseDM1 now data_bytes sa fp
      else if pgn = pgnDM2 then parseDM2 now data_bytes sa fp
      else Ret fp)"

section \<open>Observations and example states\<close>

text \<open>The value of a metric in the table of the bus, or of the frame processor, that a
  call returns.\<close>

definition metric_of :: "Bus outcome \<Rightarrow> string \<Rightarrow> any option" where
  "metric_of r key = (case r of Ret p \<Rightarrow> maps (mem p) (Data (data p)) key | Panic \<Rightarrow> None | Blocked \<Rightarrow> None)"

definition fp_metric_of :: "FrameProcessor outcome \<Rightarrow> string \<Rightarrow> any option" where
  "fp_metric_of r key =
     (case r of Ret fp \<Rightarrow> maps (fp_mem fp) (Data (fp_data fp)) key | Panic \<Rightarrow> None | Blocked \<Rightarrow> None)"

text \<open>The records in the DTC channel of the frame processor that a call returns.\<close>

definition fp_dtcs_of :: "FrameProcessor outcome \<Rightarrow> DTCCode list option" where
  "fp_dtcs_of r = (case r of Ret fp \<Rightarrow> Some (fp_dtcChan fp) | Panic \<Rightarrow> None | Blocked \<Rightarrow> None)"

text \<open>A clock that always reads 0; the heap after the metric table has been made; the
  store as \<^verbatim>\<open>OpenDB\<close> returns it on a new file, with the empty bucket; the J1587 bus
  after \<^verbatim>\<open>NewBus\<close> and \<^verbatim>\<open>StartReading\<close>; the frame processor after
  \<^verbatim>\<open>NewFrameProcessor\<close>.\<close>

definition clock0 :: "nat \<Rightarrow> int" where
  "clock0 k = 0"

definition heap_init :: heap where
  "heap_init = snd (NewProtectedData \<lparr>maps = (\<lambda>a. Map.empty), next_addr = 0\<rparr>)"

text \<open>The same heap after \<^verbatim>\<open>Set("timestamp", 1.0)\<close> on the table.\<close>

definition heap_ts :: heap where
  "heap_ts = Set \<lparr>Data = 0\<rparr> ''timestamp'' (Float64 1) heap_init"

definition db_init :: DB where
  "db_init = \<lparr>opened = True, commit_ok = True, buckets = [bucketKey \<mapsto> Map.empty]\<rparr>"

definition bus_init :: Bus where
  "bus_init =
     \<lparr>port = Some \<lparr>written = [], write_ok = True\<rparr>, data = \<lparr>Data = 0\<rparr>, isRunning = True,
      dtcChan = [], db = Some db_init, mem = heap_init\<rparr>"

definition fp_init :: FrameProcessor where
  "fp_init = \<lparr>fp_data = \<lparr>Data = 0\<rparr>, fp_dtcChan = [], fp_db = Some db_init, fp_mem = heap_init\<rparr>"

text \<open>The store is in working order: open, the disk accepts commits, the bucket exists.
  The key of (spn, fmi) is recorded in it.\<close>

definition store_ready :: "DB \<Rightarrow> bool" where
  "store_ready d = (opened d \<and> commit_ok d \<and> buckets d bucketKey \<noteq> None)"

definition seen :: "DB \<Rightarrow> 32 word \<Rightarrow> 8 word \<Rightarrow> bool" where
  "seen d spn fmi =
     (case buckets d bucketKey of None \<Rightarrow> False | Some b \<Rightarrow> b (dtc_key spn fmi) \<noteq> None)"

text \<open>\<open>n\<close> calls of \<^verbatim>\<open>IsNew\<close> in a row with the same key: the answers, in order, and
  the store after the last call.\<close>

fun sightings :: "nat \<Rightarrow> DB \<Rightarrow> 32 word \<Rightarrow> 8 word \<Rightarrow> (bool list \<times> DB) outcome" where
  "sightings 0 d spn fmi = Ret ([], d)"
| "sightings (Suc n) d spn fmi =
     obind (IsNew d spn fmi) (\<lambda>(isNew, d', err).
       obind (sightings n d' spn fmi) (\<lambda>(answers, d''). Ret (isNew # answers, d'')))"

text \<open>The store after the key of SPN 100, FMI 3 has been recorded; after
  \<^verbatim>\<open>ClearAll\<close>, which deletes the bucket; and with a disk that refuses commits.\<close>

definition db_seen :: DB where
  "db_seen = db_init\<lparr>buckets := [bucketKey \<mapsto> [dtc_key 100 3 \<mapsto> [1]]]\<rparr>"

definition db_cleared :: DB where
  "db_cleared = db_init\<lparr>buckets := Map.empty\<rparr>"

definition db_faulty :: DB where
  "db_faulty = db_init\<lparr>commit_ok := False\<rparr>"

text \<open>A DTC of MID 128 as the J1587 decoder emits it for PID 194 with the data bytes
  7, 1, 0; and ten of them, which fill the channel.\<close>

definition dtc0 :: DTCCode where
  "dtc0 = \<lparr>MID = 128, PID = 194, SPN = 7, FMI = 1, OC = 0, Timestamp = 0\<rparr>"

definition full_chan :: "DTCCode list" where
  "full_chan = replicate 10 dtc0"

section \<open>Auxiliary facts\<close>

declare walk.simps [simp del]
declare parseDM1_loop.simps [simp del]
declare parseDM2_loop.simps [simp del]
declare decimal.simps [simp del]

lemma returns_Ret: "returns (Ret x)"
  by (simp add: returns_def)

lemma returns_iff: "returns r \<longleftrightarrow> (\<exists>x. r = Ret x)"
  by (cases r) (simp_all add: returns_def)

lemma returns_if: "(c \<Longrightarrow> returns a) \<Longrightarrow> (\<not> c \<Longrightarrow> returns b) \<Longrightarrow> returns (if c then a else b)"
  by simp

lemma returns_obind: "returns m \<Longrightarrow> (\<And>x. returns (k x)) \<Longrightarrow> returns (obind m k)"
  by (cases m) (simp_all add: returns_def obind_def)

lemma returns_index: "i < length xs \<Longrightarrow> returns (index xs i)"
  by (simp add: index_def returns_def)

lemma returns_slice: "lo \<le> hi \<Longrightarrow> hi \<le> length xs \<Longrightarrow> returns (slice xs lo hi)"
  by (simp add: slice_def returns_def)

subsection \<open>Checksum\<close>

lemma foldl_uint_shift:
  "foldl (\<lambda>sum b. sum + uint b) a xs = a + foldl (\<lambda>sum b. sum + uint b) 0 xs"
  for xs :: "byte list"
  by (induction xs rule: rev_induct) simp_all

lemma byte_sum_append: "byte_sum (xs @ ys) = byte_sum xs + byte_sum ys"
  unfolding byte_sum_def foldl_append by (rule foldl_uint_shift)

lemma byte_sum_single: "byte_sum [x] = uint x"
  by (simp add: byte_sum_def)

lemma uint_checksum:
  "uint (calculateJ1587Checksum frame) = (256 - byte_sum frame mod 256) mod 256"
  unfolding calculateJ1587Checksum_def by (simp only: uint_word_of_int) simp

lemma closes_arith: "(s + (256 - s mod 256) mod 256) mod 256 = (0::int)"
proof -
  have "(s + (256 - s mod 256) mod 256) mod 256 = (s + (256 - s mod 256)) mod 256"
    by (rule mod_add_right_eq)
  also have "s + (256 - s mod 256) = 256 * (s div 256 + 1)"
    by (simp add: minus_mod_eq_mult_div [symmetric] algebra_simps)
  also have "(256 * (s div 256 + 1)) mod 256 = 0"
    by (rule mod_mult_self1_is_0)
  finally show ?thesis .
qed

lemma checksum_closes: "byte_sum (frame @ [calculateJ1587Checksum frame]) mod 256 = 0"
  by (simp only: byte_sum_append byte_sum_single uint_checksum closes_arith)

lemma frameWithChecksum_eq:
  "frameWithChecksum mid pid d = (mid # pid # d) @ [calculateJ1587Checksum (mid # pid # d)]"
  by (simp add: frameWithChecksum_def Let_def)

lemma validate_frameWithChecksum: "validateJ1587Checksum (frameWithChecksum mid pid d)"
proof -
  have "byte_sum (frameWithChecksum mid pid d) mod 256 = 0"
    by (simp only: frameWithChecksum_eq checksum_closes)
  moreover have "\<not> length (frameWithChecksum mid pid d) < 3"
    by (simp add: frameWithChecksum_eq)
  ultimately show ?thesis by (simp only: validateJ1587Checksum_def if_False)
qed

subsection \<open>The PID/data walk\<close>

lemma walk_end: "length d \<le> offset \<Longrightarrow> walk f mid d offset st = Ret st"
  by (subst walk.simps) simp

lemma walk_break:
  "offset < length d \<Longrightarrow> walk_body d offset = Ret None \<Longrightarrow> walk f mid d offset st = Ret st"
  by (subst walk.simps) simp

lemma walk_block:
  "offset < length d \<Longrightarrow> walk_body d offset = Ret (Some (pid, paramData, offset')) \<Longrightarrow>
   walk f mid d offset st = obind (f offset mid (uint pid) paramData st) (walk f mid d offset')"
  by (subst walk.simps) (simp add: obind_def split: outcome.splits)

lemma parseFrame_with_frame:
  "parseFrame_with f (frameWithChecksum mid pid d) st = walk f (uint mid) (pid # d) 0 st"
proof -
  have "slice (frameWithChecksum mid pid d) 1 (length (frameWithChecksum mid pid d) - 1) = Ret (pid # d)"
    by (simp add: frameWithChecksum_eq slice_def)
  moreover have "index (frameWithChecksum mid pid d) 0 = Ret mid"
    by (simp add: frameWithChecksum_eq index_def)
  moreover have "\<not> length (frameWithChecksum mid pid d) < 3"
    by (simp add: frameWithChecksum_eq)
  ultimately show ?thesis
    unfolding parseFrame_with_def
    by (simp only: validate_frameWithChecksum if_False not_True_eq_False obind_def outcome.case Let_def)
qed

lemma byte_le_127: "(pid::byte) \<le> 127 \<Longrightarrow> \<not> 128 \<le> pid \<and> \<not> 192 \<le> pid"
  by (simp add: word_le_nat_alt)

lemma byte_le_191: "(pid::byte) \<le> 191 \<Longrightarrow> \<not> 192 \<le> pid"
  by (simp add: word_le_nat_alt)

lemma byte_ge_128: "128 \<le> (pid::byte) \<Longrightarrow> \<not> pid \<le> 127"
  by (simp add: word_le_nat_alt)

lemma walk_body_fixed1:
  "pid \<le> 127 \<Longrightarrow> walk_body [pid, b] 0 = Ret (Some (pid, [b], 2))"
  by (simp add: walk_body_def obind_def index_def slice_def getPIDDataLength_def Let_def byte_le_127)

lemma walk_body_fixed2:
  "128 \<le> pid \<Longrightarrow> pid \<le> 191 \<Longrightarrow> walk_body [pid, b, c] 0 = Ret (Some (pid, [b, c], 3))"
  by (simp add: walk_body_def obind_def index_def slice_def getPIDDataLength_def Let_def
      byte_le_191 byte_ge_128)

lemma obind_Ret_right: "obind m Ret = m"
  by (cases m) (simp_all add: obind_def)

lemma parseFrame_with_fixed1:
  "pid \<le> 127 \<Longrightarrow>
   parseFrame_with f (frameWithChecksum mid pid [b]) st = f 0 (uint mid) (uint pid) [b] st"
proof -
  assume "pid \<le> 127"
  then have "walk f (uint mid) [pid, b] 0 st =
      obind (f 0 (uint mid) (uint pid) [b] st) (walk f (uint mid) [pid, b] 2)"
    by (simp add: walk_block [OF _ walk_body_fixed1])
  moreover have "walk f (uint mid) [pid, b] 2 = Ret"
    by (rule ext) (simp add: walk_end)
  ultimately show ?thesis
    by (simp only: parseFrame_with_frame obind_Ret_right)
qed

lemma parseFrame_with_fixed2:
  "128 \<le> pid \<Longrightarrow> pid \<le> 191 \<Longrightarrow>
   parseFrame_with f (frameWithChecksum mid pid [b, c]) st = f 0 (uint mid) (uint pid) [b, c] st"
proof -
  assume "128 \<le> pid" "pid \<le> 191"
  then have "walk f (uint mid) [pid, b, c] 0 st =
      obind (f 0 (uint mid) (uint pid) [b, c] st) (walk f (uint mid) [pid, b, c] 3)"
    by (simp add: walk_block [OF _ walk_body_fixed2])
  moreover have "walk f (uint mid) [pid, b, c] 3 = Ret"
    by (rule ext) (simp add: walk_end)
  ultimately show ?thesis
    by (simp only: parseFrame_with_frame obind_Ret_right)
qed

lemma parseFrame_with_fixed:
  assumes "(pid \<le> 127 \<and> length d = 1) \<or> (128 \<le> pid \<and> pid \<le> 191 \<and> length d = 2)"
  shows "parseFrame_with f (frameWithChecksum mid pid d) st = f 0 (uint mid) (uint pid) d st"
proof -
  from assms consider (one) b where "pid \<le> 127" "d = [b]"
    | (two) b c where "128 \<le> pid" "pid \<le> 191" "d = [b, c]"
    by (auto simp: length_Suc_conv numeral_2_eq_2)
  then show ?thesis
  proof cases
    case one
    then show ?thesis by (simp add: parseFrame_with_fixed1)
  next
    case two
    then show ?thesis by (simp add: parseFrame_with_fixed2)
  qed
qed

lemma processPIDData_returns: "returns (processPIDData now mid pid paramData p)"
  unfolding processPIDData_def Let_def
  by (intro returns_if returns_obind returns_index returns_Ret) auto

lemma walk_body_returns: "offset < length d \<Longrightarrow> returns (walk_body d offset)"
  unfolding returns_iff
  by (auto simp: walk_body_def obind_def index_def slice_def getPIDDataLength_def Let_def
      split: if_splits outcome.splits sum.splits option.splits)

lemma walk_returns:
  "(\<And>k m q b s. returns (f k m q b s)) \<Longrightarrow> returns (walk f mid d offset st)"
proof (induction f mid d offset st rule: walk.induct)
  case (1 f mid d offset st)
  show ?case
  proof (cases "offset < length d")
    case False
    then show ?thesis by (simp add: walk_end returns_Ret)
  next
    case True
    then obtain r where r: "walk_body d offset = Ret r"
      using walk_body_returns [of offset d] by (auto simp: returns_iff)
    show ?thesis
    proof (cases r)
      case None
      with True r show ?thesis by (simp add: walk_break returns_Ret)
    next
      case (Some blk)
      obtain pid paramData offset' where blk: "blk = (pid, paramData, offset')"
        by (cases blk) auto
      have body: "walk_body d offset = Ret (Some (pid, paramData, offset'))"
        using r Some blk by simp
      have "returns (walk f mid d offset' st')"
        if "f offset mid (uint pid) paramData st = Ret st'" for st'
        using "1.IH" [OF True r Some blk [symmetric] refl that] "1.prems" .
      moreover obtain st' where "f offset mid (uint pid) paramData st = Ret st'"
        using "1.prems" [of offset mid "uint pid" paramData st] by (auto simp: returns_iff)
      ultimately show ?thesis
        by (simp add: walk_block [OF True body] obind_def)
    qed
  qed
qed

lemma parseFrame_with_returns:
  assumes "\<And>k m q b s. returns (f k m q b s)"
  shows "returns (parseFrame_with f frame st)"
  unfolding parseFrame_with_def Let_def
  by (intro returns_if returns_obind returns_index returns_slice returns_Ret walk_returns assms)
    auto

lemma parseFrame_returns: "returns (parseFrame now frame p)"
  unfolding parseFrame_def by (rule parseFrame_with_returns) (rule processPIDData_returns)

lemma walk_body_zero_length:
  "192 \<le> d ! offset \<Longrightarrow> d ! offset \<le> 253 \<Longrightarrow> offset + 1 < length d \<Longrightarrow> d ! (offset + 1) = 0 \<Longrightarrow>
   walk_body d offset = Ret (Some (d ! offset, [], offset + 2))"
  by (simp add: walk_body_def obind_def index_def slice_def getPIDDataLength_def Let_def
      word_le_nat_alt)

lemma walk_body_length_exceeds:
  "192 \<le> d ! offset \<Longrightarrow> d ! offset \<le> 253 \<Longrightarrow> offset + 1 < length d \<Longrightarrow>
   length d < offset + 2 + unat (d ! (offset + 1)) \<Longrightarrow>
   walk_body d offset = Ret None"
  by (simp add: walk_body_def obind_def index_def slice_def getPIDDataLength_def Let_def
      word_le_nat_alt)

subsection \<open>The deduplication store\<close>

lemma length_decimal: "0 < k \<Longrightarrow> n < 10 ^ k \<Longrightarrow> length (decimal n) \<le> k"
proof (induction k arbitrary: n)
  case 0
  then show ?case by simp
next
  case (Suc k)
  show ?case
  proof (cases "n < 10")
    case True
    then show ?thesis by (subst decimal.simps) simp
  next
    case False
    then have k: "0 < k" using Suc.prems by (cases k) auto
    have "n div 10 < 10 ^ k" using Suc.prems by (simp add: less_mult_imp_div_less mult.commute)
    then have "length (decimal (n div 10)) \<le> k" using Suc.IH k by blast
    with False show ?thesis by (subst decimal.simps) simp
  qed
qed

lemma dtc_key_ok: "dtc_key spn fmi \<noteq> [] \<and> \<not> 32768 < length (dtc_key spn fmi)"
proof -
  have "unat spn < 10 ^ 10"
    using unsigned_less [of spn, where ?'a = nat] by simp
  then have a: "length (decimal (unat spn)) \<le> 10" by (intro length_decimal) simp_all
  have "unat fmi < 10 ^ 3"
    using unsigned_less [of fmi, where ?'a = nat] by simp
  then have b: "length (decimal (unat fmi)) \<le> 3" by (intro length_decimal) simp_all
  from a b show ?thesis by (simp add: dtc_key_def)
qed

lemma IsNew_first:
  assumes "store_ready d" "\<not> seen d spn fmi"
  shows "IsNew d spn fmi =
    Ret (True, d\<lparr>buckets := (buckets d)(bucketKey \<mapsto> (the (buckets d bucketKey))(dtc_key spn fmi \<mapsto> [1]))\<rparr>, None)"
  using assms dtc_key_ok [of spn fmi]
  by (auto simp: IsNew_def Update_def Bucket_Get_def Bucket_Put_def obind_def store_ready_def
      seen_def Let_def)

lemma IsNew_again:
  assumes "store_ready d" "seen d spn fmi"
  shows "IsNew d spn fmi = Ret (False, d, None)"
  using assms
  by (auto simp: IsNew_def Update_def Bucket_Get_def obind_def store_ready_def
      seen_def Let_def split: option.splits)

lemma Remove_ready:
  assumes "store_ready d"
  shows "Remove d spn fmi =
    Ret (d\<lparr>buckets := (buckets d)(bucketKey \<mapsto> (the (buckets d bucketKey))(dtc_key spn fmi := None))\<rparr>, None)"
  using assms
  by (auto simp: Remove_def Update_def Bucket_Delete_def obind_def store_ready_def Let_def)

lemma ClearAll_ready:
  assumes "store_ready d"
  shows "ClearAll d = Ret (d\<lparr>buckets := (buckets d)(bucketKey := None)\<rparr>, None)"
  using assms
  by (auto simp: ClearAll_def Update_def DeleteBucket_def obind_def store_ready_def)

lemma IsNew_no_bucket:
  assumes "opened d" "buckets d bucketKey = None"
  shows "IsNew d spn fmi = Panic"
  using assms
  by (simp add: IsNew_def Update_def Bucket_Get_def obind_def Let_def)

lemma store_ready_init: "store_ready db_init"
  by (simp add: store_ready_def db_init_def)

lemma store_ready_seen: "store_ready db_seen"
  by (simp add: store_ready_def db_init_def db_seen_def)

lemma IsNew_commit_fails:
  assumes "opened d" "\<not> commit_ok d" "buckets d bucketKey = Some b" "b (dtc_key spn fmi) = None"
  shows "IsNew d spn fmi = Ret (True, d, Some ErrCommit)"
  using assms dtc_key_ok [of spn fmi]
  by (auto simp: IsNew_def Update_def Bucket_Get_def Bucket_Put_def obind_def Let_def)

lemma IsNew_faulty: "IsNew db_faulty spn fmi = Ret (True, db_faulty, Some ErrCommit)"
  by (rule IsNew_commit_fails [where b = Map.empty]) (simp_all add: db_faulty_def db_init_def)

text \<open>The part of the deduplication property that holds: the first of \<open>n + 1\<close> calls with
  a key that the store does not hold answers true and the others answer false; after
  \<^verbatim>\<open>Remove\<close> of the key the next call answers true again.\<close>

lemma sightings_seen:
  "store_ready d \<Longrightarrow> seen d spn fmi \<Longrightarrow> sightings n d spn fmi = Ret (replicate n False, d)"
  by (induction n) (simp_all add: IsNew_again obind_def)

lemma sightings_first:
  assumes "store_ready d" "\<not> seen d spn fmi"
  shows "sightings (Suc n) d spn fmi =
    Ret (True # replicate n False,
         d\<lparr>buckets := (buckets d)(bucketKey \<mapsto> (the (buckets d bucketKey))(dtc_key spn fmi \<mapsto> [1]))\<rparr>)"
proof -
  let ?d' = "d\<lparr>buckets := (buckets d)(bucketKey \<mapsto> (the (buckets d bucketKey))(dtc_key spn fmi \<mapsto> [1]))\<rparr>"
  have "store_ready ?d'" using assms by (simp add: store_ready_def)
  moreover have "seen ?d' spn fmi" by (simp add: seen_def)
  ultimately have "sightings n ?d' spn fmi = Ret (replicate n False, ?d')"
    by (rule sightings_seen)
  then show ?thesis using assms by (simp add: IsNew_first obind_def)
qed

lemma Remove_then_IsNew:
  assumes "store_ready d"
  shows "\<exists>d' d''. Remove d spn fmi = Ret (d', None) \<and> IsNew d' spn fmi = Ret (True, d'', None)"
proof -
  let ?d' = "d\<lparr>buckets := (buckets d)(bucketKey \<mapsto> (the (buckets d bucketKey))(dtc_key spn fmi := None))\<rparr>"
  have "store_ready ?d'" using assms by (simp add: store_ready_def)
  moreover have "\<not> seen ?d' spn fmi" by (simp add: seen_def)
  ultimately show ?thesis using assms by (simp add: Remove_ready IsNew_first)
qed

lemma ClearAll_then_IsNew:
  assumes "store_ready d"
  shows "\<exists>d'. ClearAll d = Ret (d', None) \<and> IsNew d' spn fmi = Panic"
  using assms by (simp add: ClearAll_ready IsNew_no_bucket store_ready_def)

subsection \<open>Metrics\<close>

lemmas PID_defs = PID_VEHICLE_SPEED_def PID_ENGINE_RPM_def PID_COOLANT_TEMP_def
  PID_OIL_PRESSURE_def PID_ENGINE_LOAD_def PID_FUEL_LEVEL_def PID_BATTERY_VOLTAGE_def
  PID_AMBIENT_TEMP_def PID_TOTAL_DISTANCE_def PID_ACTIVE_DTC_def PID_PREVIOUSLY_ACTIVE_DTC_def

lemma metric_of_set_metric: "metric_of (Ret (set_metric key v p)) key = Some v"
  by (simp add: metric_of_def set_metric_def Set_def map_assign_def)

lemma processPIDData_rpm:
  "processPIDData t mid 190 [b0, b1] p =
     Ret (set_metric ''EngineRPM'' (Float64 (of_int ((uint b0 * 256 + uint b1) div 8))) p)"
  unfolding processPIDData_def PID_defs
  by (simp add: obind_def index_def)

lemma parseFrame_rpm:
  "parseFrame now (frameWithChecksum mid 190 [b0, b1]) p = processPIDData (now 0) (uint mid) 190 [b0, b1] p"
  unfolding parseFrame_def
  using parseFrame_with_fixed2 [of 190 "\<lambda>k. processPIDData (now k)" mid b0 b1 p] by simp

lemma fp_metric_of_fp_set: "fp_metric_of (Ret (fp_set key v fp)) key = Some v"
  by (simp add: fp_metric_of_def fp_set_def Set_def map_assign_def)

lemma fp_metric_of_fp_set_other:
  "key' \<noteq> key \<Longrightarrow> fp_metric_of (Ret (fp_set key' v fp)) key = fp_metric_of (Ret fp) key"
  by (simp add: fp_metric_of_def fp_set_def Set_def map_assign_def)

lemma parseEEC1_scenario:
  "parseEEC1 [0xFF, 0xFF, 0xFF, 0x10, 0x27, 0xFF, 0xFF, 0xFF] fp =
     Ret (fp_set ''EngineLoad'' NilValue (fp_set ''EngineRPM'' (Float64 1250) fp))"
  by (simp add: parseEEC1_def obind_def index_def Let_def)

subsection \<open>Diagnostic messages\<close>

lemma DM_entry_scenario: "DM_entry [0, 0, 1, 2, 0x43, 5] 2 = Ret (0x20201, 3, 5)"
  by (simp add: DM_entry_def obind_def index_def Let_def)

lemma DM_entry_small: "DM_entry [0, 0, 7, 0, 1, 0] 2 = Ret (7, 1, 0)"
  by (simp add: DM_entry_def obind_def index_def Let_def)

lemma parseDM1_one_entry:
  "parseDM1 now [l0, l1, e0, e1, e2, e3] sa fp =
     (case parseDM1_body now [l0, l1, e0, e1, e2, e3] sa 0 fp of
        Ret (Break fp') \<Rightarrow> Ret fp'
      | Ret (Continue fp') \<Rightarrow> Ret fp'
      | Panic \<Rightarrow> Panic
      | Blocked \<Rightarrow> Blocked)"
  by (simp add: parseDM1_def parseDM1_loop.simps [of _ _ _ _ 0] parseDM1_loop.simps [of _ _ _ _ "Suc 0"]
      split: outcome.splits loop_step.splits)

lemma parseDM2_one_entry:
  "parseDM2 now [l0, l1, e0, e1, e2, e3] sa fp =
     (case parseDM2_body now [l0, l1, e0, e1, e2, e3] sa 0 fp of
        Ret (Break fp') \<Rightarrow> Ret fp'
      | Ret (Continue fp') \<Rightarrow> Ret fp'
      | Panic \<Rightarrow> Panic
      | Blocked \<Rightarrow> Blocked)"
  by (simp add: parseDM2_def parseDM2_loop.simps [of _ _ _ _ 0] parseDM2_loop.simps [of _ _ _ _ "Suc 0"]
      split: outcome.splits loop_step.splits)

subsection \<open>Snapshots of the metric table\<close>

lemma Copy_fresh:
  "Copy pd h = (\<lparr>cdm_data = next_addr h\<rparr>,
     h\<lparr>maps := (maps h)(next_addr h := (if Data pd = next_addr h then Map.empty else maps h (Data pd))),
       next_addr := Suc (next_addr h)\<rparr>)"
  by (simp add: Copy_def make_map_def range_assign_def)

lemma Set_other: "a \<noteq> Data pd \<Longrightarrow> maps (Set pd k v h) a = maps h a"
  by (simp add: Set_def map_assign_def)

lemma Set_next_addr: "next_addr (Set pd k v h) = next_addr h"
  by (simp add: Set_def map_assign_def)

lemma Set_all_other: "a \<noteq> Data pd \<Longrightarrow> maps (Set_all pd sets h) a = maps h a"
  by (induction pd sets h rule: Set_all.induct) (simp_all add: Set_other)

lemma Set_all_next_addr: "next_addr (Set_all pd sets h) = next_addr h"
  by (induction pd sets h rule: Set_all.induct) (simp_all add: Set_next_addr)

lemma copied_MarshalJSON_fresh:
  "cdm_data m < next_addr h \<Longrightarrow>
   fst (copied_MarshalJSON m now h) = (maps h (cdm_data m))(''timestamp'' \<mapsto> Str now)"
  by (simp add: copied_MarshalJSON_def make_map_def range_assign_def map_assign_def Let_def)

section \<open>Checksum round trip\<close>

text \<open>Claim C1, as the code has it. For every MID byte, PID byte and data byte sequence the
  frame that \<^verbatim>\<open>SendFrame\<close> builds with \<^verbatim>\<open>calculateJ1587Checksum\<close> is accepted by
  \<^verbatim>\<open>validateJ1587Checksum\<close>. When the data has the length that the range of the PID
  fixes, one byte for a PID up to 127 and two bytes for a PID from 128 to 191, the frame
  decodes to the one block of the original MID, PID and data, and \<^verbatim>\<open>parseFrame\<close> does
  what \<^verbatim>\<open>processPIDData\<close> does on them.\<close>

theorem C1_checksum_roundtrip:
  "validateJ1587Checksum (frameWithChecksum mid pid d) \<and>
   ((pid \<le> 127 \<and> length d = 1) \<or> (128 \<le> pid \<and> pid \<le> 191 \<and> length d = 2) \<longrightarrow>
      decoded_blocks (frameWithChecksum mid pid d) = Ret [(uint mid, uint pid, d)] \<and>
      parseFrame now (frameWithChecksum mid pid d) p
        = processPIDData (now 0) (uint mid) (uint pid) d p)"
proof (intro conjI impI)
  show "validateJ1587Checksum (frameWithChecksum mid pid d)"
    by (rule validate_frameWithChecksum)
next
  assume a: "(pid \<le> 127 \<and> length d = 1) \<or> (128 \<le> pid \<and> pid \<le> 191 \<and> length d = 2)"
  show "decoded_blocks (frameWithChecksum mid pid d) = Ret [(uint mid, uint pid, d)]"
    unfolding decoded_blocks_def parseFrame_with_fixed [OF a]
    by (simp add: record_block_def)
  show "parseFrame now (frameWithChecksum mid pid d) p
        = processPIDData (now 0) (uint mid) (uint pid) d p"
    unfolding parseFrame_def by (rule parseFrame_with_fixed [OF a])
qed

text \<open>The speed frame of MID 128: PID 84 with the one data byte 50.\<close>

theorem C1_checksum_roundtrip_witness:
  "(84 :: byte) \<le> 127 \<and> length [50 :: byte] = 1 \<and>
   validateJ1587Checksum (frameWithChecksum 128 84 [50]) \<and>
   decoded_blocks (frameWithChecksum 128 84 [50]) = Ret [(128, 84, [50])] \<and>
   metric_of (parseFrame clock0 (frameWithChecksum 128 84 [50]) bus_init) ''Speed''
     = Some (Float64 50)"
proof -
  have "processPIDData 0 128 84 [50] bus_init = Ret (set_metric ''Speed'' (Float64 50) bus_init)"
    unfolding processPIDData_def PID_defs by (simp add: obind_def index_def)
  then show ?thesis
    using C1_checksum_roundtrip [of 128 84 "[50]" clock0 bus_init]
    by (simp add: clock0_def metric_of_set_metric)
qed

text \<open>The round trip fails for the frame that \<^verbatim>\<open>ClearActiveDTCs\<close> sends, MID 128 with
  PID 250 and no data: PID 250 is in the variable-length range, the walk finds no length
  byte and decodes nothing.\<close>

theorem C1_counterexample:
  "decoded_blocks (frameWithChecksum 128 250 []) = Ret [] \<and>
   decoded_blocks (frameWithChecksum 128 250 []) \<noteq> Ret [(128, 250, [])]"
  unfolding decoded_blocks_def parseFrame_with_frame
  by (simp add: walk_break walk_body_def obind_def index_def slice_def getPIDDataLength_def Let_def)

section \<open>Variable-length PIDs\<close>

text \<open>Claim C5. In the PID/data walk of any frame, a PID from 192 to 253 whose length byte
  is 0 gives the decoder the empty data block, and the walk goes on at the byte right after
  the length byte. When the length byte exceeds the bytes that remain, the walk ends with
  the state it has reached. \<^verbatim>\<open>parseFrame\<close> returns on every frame: every index and slice
  is within bounds.\<close>

theorem C5_variable_length_boundary:
  "(192 \<le> d ! offset \<and> d ! offset \<le> 253 \<and> offset + 1 < length d \<and> d ! (offset + 1) = 0 \<longrightarrow>
      walk f mid d offset st =
        obind (f offset mid (uint (d ! offset)) [] st) (walk f mid d (offset + 2))) \<and>
   (192 \<le> d ! offset \<and> d ! offset \<le> 253 \<and> offset + 1 < length d \<and>
    length d < offset + 2 + unat (d ! (offset + 1)) \<longrightarrow>
      walk f mid d offset st = Ret st) \<and>
   returns (parseFrame now frame p)"
proof (intro conjI impI)
  assume a: "192 \<le> d ! offset \<and> d ! offset \<le> 253 \<and> offset + 1 < length d \<and> d ! (offset + 1) = 0"
  then have "offset < length d" by simp
  then show "walk f mid d offset st =
        obind (f offset mid (uint (d ! offset)) [] st) (walk f mid d (offset + 2))"
    using a by (simp add: walk_block walk_body_zero_length)
next
  assume a: "192 \<le> d ! offset \<and> d ! offset \<le> 253 \<and> offset + 1 < length d \<and>
    length d < offset + 2 + unat (d ! (offset + 1))"
  then have "offset < length d" by simp
  then show "walk f mid d offset st = Ret st"
    using a by (simp add: walk_break walk_body_length_exceeds)
next
  show "returns (parseFrame now frame p)"
    by (rule parseFrame_returns)
qed

text \<open>PID 194 with length byte 0 before a speed block, and PID 194 with length byte 9
  before two more bytes.\<close>

theorem C5_variable_length_boundary_witness:
  "(192 :: byte) \<le> [194, 0, 84, 50] ! 0 \<and> ([194, 0, 84, 50] ! 0 :: byte) \<le> 253 \<and>
   ([194, 0, 84, 50] ! (0 + 1) :: byte) = 0 \<and>
   walk record_block 128 [194, 0, 84, 50] 0 [] = Ret [(128, 194, []), (128, 84, [50])] \<and>
   length [194, 9, 84, 50 :: byte] < 0 + 2 + unat ([194, 9, 84, 50 :: byte] ! (0 + 1)) \<and>
   walk record_block 128 [194, 9, 84, 50] 0 [] = Ret [] \<and>
   returns (parseFrame clock0 (frameWithChecksum 128 194 [9, 84, 50]) bus_init)"
  using C5_variable_length_boundary
      [of "[194, 0, 84, 50]" 0 record_block 128 "[]" clock0 "frameWithChecksum 128 194 [9, 84, 50]" bus_init]
    C5_variable_length_boundary
      [of "[194, 9, 84, 50]" 0 record_block 128 "[]" clock0 "frameWithChecksum 128 194 [9, 84, 50]" bus_init]
  by (simp add: walk.simps walk_body_def obind_def index_def slice_def getPIDDataLength_def
      Let_def record_block_def)

section \<open>Deduplication\<close>

text \<open>Claim C2, at the input where the code departs from it. On the store that
  \<^verbatim>\<open>OpenDB\<close> returns, three sightings of SPN 100 with FMI 3 answer true, false, false,
  and after \<^verbatim>\<open>Remove\<close> of the key the next sighting answers true again. \<^verbatim>\<open>ClearAll\<close>
  succeeds too, by deleting the bucket; but the next \<^verbatim>\<open>IsNew\<close> with the same key then
  does not answer true: it panics, on the nil bucket.\<close>

theorem C2_dedup_after_clear_all:
  "sightings 3 db_init 100 3 = Ret ([True, False, False], db_seen) \<and>
   Remove db_seen 100 3 = Ret (db_init, None) \<and>
   IsNew db_init 100 3 = Ret (True, db_seen, None) \<and>
   ClearAll db_seen = Ret (db_cleared, None) \<and>
   IsNew db_cleared 100 3 = Panic"
proof (intro conjI)
  have fresh: "\<not> seen db_init 100 3" by (simp add: seen_def db_init_def)
  then show "sightings 3 db_init 100 3 = Ret ([True, False, False], db_seen)"
    using sightings_first [OF store_ready_init, of 100 3 2]
    by (simp add: numeral_3_eq_3 numeral_2_eq_2 db_seen_def db_init_def del: sightings.simps)
  show "Remove db_seen 100 3 = Ret (db_init, None)"
    by (simp add: Remove_ready store_ready_seen) (simp add: db_seen_def db_init_def)
  show "IsNew db_init 100 3 = Ret (True, db_seen, None)"
    by (simp add: IsNew_first [OF store_ready_init fresh]) (simp add: db_seen_def db_init_def)
  show "ClearAll db_seen = Ret (db_cleared, None)"
    by (simp add: ClearAll_ready store_ready_seen) (simp add: db_seen_def db_cleared_def db_init_def)
  show "IsNew db_cleared 100 3 = Panic"
    by (rule IsNew_no_bucket) (simp_all add: db_cleared_def db_init_def)
qed

text \<open>Claim C3, at the input where the code departs from it. With a store whose commit
  fails, \<^verbatim>\<open>IsNew\<close> returns an error. The J1587 loop \<^verbatim>\<open>StartProcessingDTCs\<close> then publishes
  nothing for the record it received, while \<^verbatim>\<open>parseDM1\<close> of the J1939 agent sends the
  record of the same fault into the DTC channel.\<close>

theorem C3_dedup_error_path:
  "IsNew db_faulty 7 1 = Ret (True, db_faulty, Some ErrCommit) \<and>
   StartProcessingDTCs (bus_init\<lparr>db := Some db_faulty\<rparr>) [dtc0] []
     = Ret (bus_init\<lparr>db := Some db_faulty\<rparr>, []) \<and>
   fp_dtcs_of (parseDM1 clock0 [0, 0, 7, 0, 1, 0] 128 (fp_init\<lparr>fp_db := Some db_faulty\<rparr>))
     = Some [\<lparr>MID = 128, PID = 0, SPN = 7, FMI = 1, OC = 0, Timestamp = 0\<rparr>]"
proof (intro conjI)
  show "IsNew db_faulty 7 1 = Ret (True, db_faulty, Some ErrCommit)"
    by (rule IsNew_faulty)
  show "StartProcessingDTCs (bus_init\<lparr>db := Some db_faulty\<rparr>) [dtc0] []
     = Ret (bus_init\<lparr>db := Some db_faulty\<rparr>, [])"
    by (simp add: dtc0_def IsNew_faulty)
  show "fp_dtcs_of (parseDM1 clock0 [0, 0, 7, 0, 1, 0] 128 (fp_init\<lparr>fp_db := Some db_faulty\<rparr>))
     = Some [\<lparr>MID = 128, PID = 0, SPN = 7, FMI = 1, OC = 0, Timestamp = 0\<rparr>]"
    by (simp add: parseDM1_one_entry parseDM1_body_def DM_entry_small IsNew_faulty obind_def
        send_def dtcChanCap_def fp_init_def fp_dtcs_of_def clock0_def Let_def)
qed

section \<open>J1939 scenarios\<close>

text \<open>Claim C4, as the code has it. The entry of the DM1 payload
  \<open>[0x00, 0x00, 0x01, 0x02, 0x43, 0x05]\<close> decodes to SPN \<open>0x20201\<close> (the three high bits of
  \<open>0x43\<close> are 2), FMI 3 and occurrence count 5. When the DTC channel has room, and the
  store, if there is one, is in working order and has not seen the key, \<^verbatim>\<open>parseDM1\<close>
  adds exactly one record with these values to the channel.\<close>

theorem C4_dm1_scenario:
  "DM_entry [0, 0, 1, 2, 0x43, 5] 2 = Ret (0x20201, 3, 5) \<and>
   (length (fp_dtcChan fp) < dtcChanCap \<and>
    (case fp_db fp of None \<Rightarrow> True | Some d \<Rightarrow> store_ready d \<and> \<not> seen d 0x20201 3) \<longrightarrow>
    fp_dtcs_of (parseDM1 now [0, 0, 1, 2, 0x43, 5] sa fp)
      = Some (fp_dtcChan fp @
          [\<lparr>MID = uint sa, PID = 0, SPN = 0x20201, FMI = 3, OC = 5, Timestamp = now 0\<rparr>]))"
proof (intro conjI impI)
  show "DM_entry [0, 0, 1, 2, 0x43, 5] 2 = Ret (0x20201, 3, 5)"
    by (rule DM_entry_scenario)
next
  assume a: "length (fp_dtcChan fp) < dtcChanCap \<and>
    (case fp_db fp of None \<Rightarrow> True | Some d \<Rightarrow> store_ready d \<and> \<not> seen d 0x20201 3)"
  show "fp_dtcs_of (parseDM1 now [0, 0, 1, 2, 0x43, 5] sa fp)
      = Some (fp_dtcChan fp @
          [\<lparr>MID = uint sa, PID = 0, SPN = 0x20201, FMI = 3, OC = 5, Timestamp = now 0\<rparr>])"
  proof (cases "fp_db fp")
    case None
    with a show ?thesis
      by (simp add: parseDM1_one_entry parseDM1_body_def DM_entry_scenario obind_def
          send_def fp_dtcs_of_def Let_def)
  next
    case (Some d)
    with a have "store_ready d" "\<not> seen d 0x20201 3" by simp_all
    then have "IsNew d 0x20201 3 =
      Ret (True, d\<lparr>buckets := (buckets d)(bucketKey \<mapsto> (the (buckets d bucketKey))(dtc_key 0x20201 3 \<mapsto> [1]))\<rparr>, None)"
      by (rule IsNew_first)
    with a Some show ?thesis
      by (simp add: parseDM1_one_entry parseDM1_body_def DM_entry_scenario obind_def
          send_def fp_dtcs_of_def Let_def)
  qed
qed

text \<open>The frame processor after \<^verbatim>\<open>NewFrameProcessor\<close>, with the empty channel and the new
  store.\<close>

theorem C4_dm1_scenario_witness:
  "length (fp_dtcChan fp_init) < dtcChanCap \<and>
   fp_db fp_init = Some db_init \<and> store_ready db_init \<and> \<not> seen db_init 0x20201 3 \<and>
   fp_dtcs_of (parseDM1 clock0 [0, 0, 1, 2, 0x43, 5] 0 fp_init)
      = Some [\<lparr>MID = 0, PID = 0, SPN = 0x20201, FMI = 3, OC = 5, Timestamp = 0\<rparr>]"
  using C4_dm1_scenario [of fp_init clock0 0]
  by (simp add: fp_init_def dtcChanCap_def store_ready_def seen_def db_init_def clock0_def)

text \<open>The SPN of the one record is \<open>0x20201\<close>, not \<open>0x10201\<close>.\<close>

theorem C4_counterexample:
  "fp_dtcs_of (parseDM1 clock0 [0, 0, 1, 2, 0x43, 5] 0 fp_init)
      = Some [\<lparr>MID = 0, PID = 0, SPN = 0x20201, FMI = 3, OC = 5, Timestamp = 0\<rparr>] \<and>
   (0x20201 :: int) \<noteq> 0x10201"
proof -
  have "IsNew db_init 0x20201 3 =
      Ret (True, db_init\<lparr>buckets := (buckets db_init)(bucketKey \<mapsto> (the (buckets db_init bucketKey))(dtc_key 0x20201 3 \<mapsto> [1]))\<rparr>, None)"
    by (rule IsNew_first) (simp_all add: store_ready_def seen_def db_init_def)
  then show ?thesis
    by (simp add: parseDM1_one_entry parseDM1_body_def DM_entry_scenario obind_def
          send_def fp_dtcs_of_def Let_def fp_init_def dtcChanCap_def clock0_def)
qed

text \<open>Claim C7. Whatever the table held before, after the EEC1 payload
  \<open>[0xFF, 0xFF, 0xFF, 0x10, 0x27, 0xFF, 0xFF, 0xFF]\<close> the metric EngineRPM is
  \<open>(0x10 + 0x27 * 256) * 0.125 = 1250\<close>, and EngineLoad holds no number: byte 2 is the
  sentinel \<open>0xFF\<close> and the decoder stores \<^verbatim>\<open>nil\<close> under EngineLoad.\<close>

theorem C7_eec1_scenario:
  "fp_metric_of (ProcessFrame now pgnEEC1 sa [0xFF, 0xFF, 0xFF, 0x10, 0x27, 0xFF, 0xFF, 0xFF] fp)
       ''EngineRPM''
     = Some (Float64 ((0x10 + 0x27 * 256) * 0.125)) \<and>
   (0x10 + 0x27 * 256) * 0.125 = (1250 :: real) \<and>
   fp_metric_of (ProcessFrame now pgnEEC1 sa [0xFF, 0xFF, 0xFF, 0x10, 0x27, 0xFF, 0xFF, 0xFF] fp)
       ''EngineLoad''
     = Some NilValue"
  by (simp add: ProcessFrame_def parseEEC1_scenario fp_metric_of_fp_set fp_metric_of_fp_set_other)

section \<open>J1587 engine speed\<close>

text \<open>What the code computes for PID 190: the integer quotient of \<open>b0 * 256 + b1\<close> by 8,
  converted to \<^verbatim>\<open>float64\<close>.\<close>

lemma engine_rpm_value:
  "metric_of (processPIDData t m PID_ENGINE_RPM [b0, b1] p) ''EngineRPM''
     = Some (Float64 (of_int ((uint b0 * 256 + uint b1) div 8))) \<and>
   metric_of (parseFrame now (frameWithChecksum mid 190 [b0, b1]) p) ''EngineRPM''
     = Some (Float64 (of_int ((uint b0 * 256 + uint b1) div 8)))"
  by (simp only: parseFrame_rpm PID_ENGINE_RPM_def processPIDData_rpm metric_of_set_metric)

text \<open>Claim C6, at the input where the code departs from it. The valid frame of MID 128
  with PID 190 and the data bytes 0 and 9 sets EngineRPM to 1, not to \<open>9 / 8 = 1.125\<close>.\<close>

theorem C6_engine_rpm_truncated:
  "validateJ1587Checksum (frameWithChecksum 128 190 [0, 9]) \<and>
   metric_of (parseFrame clock0 (frameWithChecksum 128 190 [0, 9]) bus_init) ''EngineRPM''
     = Some (Float64 1) \<and>
   metric_of (parseFrame clock0 (frameWithChecksum 128 190 [0, 9]) bus_init) ''EngineRPM''
     \<noteq> Some (Float64 ((0 * 256 + 9) / 8))"
  by (simp add: validate_frameWithChecksum parseFrame_rpm processPIDData_rpm metric_of_set_metric)

section \<open>The DTC channel when it is full\<close>

text \<open>Claim C8, at the input where the code departs from it. With ten records in the DTC
  channel and nobody receiving, \<^verbatim>\<open>parseDM1\<close> and \<^verbatim>\<open>parseDM2\<close> of the J1939 agent do not
  return: they stay in the send. The J1587 decoder returns and leaves the channel as it
  was, dropping the record.\<close>

theorem C8_full_channel:
  "parseDM1 clock0 [0, 0, 1, 2, 0x43, 5] 0 (fp_init\<lparr>fp_dtcChan := full_chan\<rparr>) = Blocked \<and>
   parseDM2 clock0 [0, 0, 1, 2, 0x43, 5] 0 (fp_init\<lparr>fp_dtcChan := full_chan\<rparr>) = Blocked \<and>
   processPIDData 0 128 194 [7, 1, 0] (bus_init\<lparr>dtcChan := full_chan\<rparr>)
     = Ret (bus_init\<lparr>dtcChan := full_chan\<rparr>)"
proof (intro conjI)
  have "IsNew db_init 0x20201 3 =
      Ret (True, db_init\<lparr>buckets := (buckets db_init)(bucketKey \<mapsto> (the (buckets db_init bucketKey))(dtc_key 0x20201 3 \<mapsto> [1]))\<rparr>, None)"
    by (rule IsNew_first) (simp_all add: store_ready_def seen_def db_init_def)
  then show "parseDM1 clock0 [0, 0, 1, 2, 0x43, 5] 0 (fp_init\<lparr>fp_dtcChan := full_chan\<rparr>) = Blocked"
    by (simp add: parseDM1_one_entry parseDM1_body_def DM_entry_scenario obind_def
          send_def Let_def fp_init_def dtcChanCap_def full_chan_def)
  show "parseDM2 clock0 [0, 0, 1, 2, 0x43, 5] 0 (fp_init\<lparr>fp_dtcChan := full_chan\<rparr>) = Blocked"
    by (simp add: parseDM2_one_entry parseDM2_body_def DM_entry_scenario obind_def
          send_def Let_def fp_init_def dtcChanCap_def full_chan_def)
  show "processPIDData 0 128 194 [7, 1, 0] (bus_init\<lparr>dtcChan := full_chan\<rparr>)
     = Ret (bus_init\<lparr>dtcChan := full_chan\<rparr>)"
    unfolding processPIDData_def PID_defs
    by (simp add: obind_def index_def send_or_drop_def dtcChanCap_def full_chan_def bus_init_def)
qed

section \<open>The clear-DTCs command\<close>

text \<open>Claim C9, at the input where the code departs from it. A command whose type is
  \<^verbatim>\<open>CommandTypeClearDTCs\<close> is handled as an unknown command: the handler returns without
  an error and the bus, its port and its store are as before. The handler acts on the
  type \<^verbatim>\<open>"clear_dtc"\<close>: without a target it writes the clear-DTCs frame for MID 128 and
  clears the store.\<close>

theorem C9_clear_dtcs_command:
  "handleMQTTCommand bus \<lparr>Type = CommandTypeClearDTCs, Params = ps\<rparr> = Ret (bus, None) \<and>
   handleMQTTCommand bus_init
       \<lparr>Type = ''clear_dtc'', Params = \<lparr>TargetMID = None, ParamSPN = None, ParamFMI = None\<rparr>\<rparr>
     = Ret (bus_init\<lparr>port := Some \<lparr>written = [frameWithChecksum 128 250 []], write_ok = True\<rparr>,
                     db := Some db_cleared\<rparr>, None)"
proof (intro conjI)
  show "handleMQTTCommand bus \<lparr>Type = CommandTypeClearDTCs, Params = ps\<rparr> = Ret (bus, None)"
    by (simp add: handleMQTTCommand_def CommandTypeClearDTCs_def)
  have "ClearAll db_init = Ret (db_cleared, None)"
    by (simp add: ClearAll_ready store_ready_init) (simp add: db_cleared_def db_init_def)
  then show "handleMQTTCommand bus_init
       \<lparr>Type = ''clear_dtc'', Params = \<lparr>TargetMID = None, ParamSPN = None, ParamFMI = None\<rparr>\<rparr>
     = Ret (bus_init\<lparr>port := Some \<lparr>written = [frameWithChecksum 128 250 []], write_ok = True\<rparr>,
                     db := Some db_cleared\<rparr>, None)"
    by (simp add: handleMQTTCommand_def ClearActiveDTCs_def SendFrame_def bus_init_def obind_def
        PID_COMMAND_CLEAR_DTCS_def)
qed

section \<open>Snapshots of the metric table\<close>

text \<open>Claim C10, as the code has it. For a table whose map has been made, the marshaler
  that \<^verbatim>\<open>Copy\<close> returns holds exactly the entries of the table at the call; any later
  sequence of \<^verbatim>\<open>Set\<close> calls on the table leaves the copy unchanged; and serialising the
  copy emits its entries with the timestamp stored under \<^verbatim>\<open>"timestamp"\<close>, in place of
  an entry of the copy under that key if there is one, and nothing else.\<close>

theorem C10_copy_snapshot:
  "Data pd < next_addr h \<longrightarrow>
     maps (snd (Copy pd h)) (cdm_data (fst (Copy pd h))) = maps h (Data pd) \<and>
     maps (Set_all pd sets (snd (Copy pd h))) (cdm_data (fst (Copy pd h))) = maps h (Data pd) \<and>
     fst (copied_MarshalJSON (fst (Copy pd h)) now (Set_all pd sets (snd (Copy pd h))))
       = (maps h (Data pd))(''timestamp'' \<mapsto> Str now)"
proof
  assume a: "Data pd < next_addr h"
  let ?m = "fst (Copy pd h)" and ?h1 = "snd (Copy pd h)"
  let ?h2 = "Set_all pd sets ?h1"
  have m: "cdm_data ?m = next_addr h" by (simp add: Copy_fresh)
  have ne: "cdm_data ?m \<noteq> Data pd" using a m by simp
  have snap: "maps ?h1 (cdm_data ?m) = maps h (Data pd)"
    using a by (simp add: Copy_fresh)
  have later: "maps ?h2 (cdm_data ?m) = maps h (Data pd)"
    using Set_all_other [OF ne] snap by simp
  have "cdm_data ?m < next_addr ?h2"
    by (simp add: Set_all_next_addr) (simp add: Copy_fresh)
  then have "fst (copied_MarshalJSON ?m now ?h2) = (maps ?h2 (cdm_data ?m))(''timestamp'' \<mapsto> Str now)"
    by (rule copied_MarshalJSON_fresh)
  with snap later show "maps ?h1 (cdm_data ?m) = maps h (Data pd) \<and>
     maps ?h2 (cdm_data ?m) = maps h (Data pd) \<and>
     fst (copied_MarshalJSON ?m now ?h2) = (maps h (Data pd))(''timestamp'' \<mapsto> Str now)"
    by simp
qed

text \<open>The empty table after \<^verbatim>\<open>NewProtectedData\<close>, copied, then one \<^verbatim>\<open>Set\<close> of Speed.\<close>

theorem C10_copy_snapshot_witness:
  "Data \<lparr>Data = 0\<rparr> < next_addr heap_init \<and>
   maps (Set_all \<lparr>Data = 0\<rparr> [(''Speed'', Float64 50)] (snd (Copy \<lparr>Data = 0\<rparr> heap_init)))
        (cdm_data (fst (Copy \<lparr>Data = 0\<rparr> heap_init))) = Map.empty \<and>
   fst (copied_MarshalJSON (fst (Copy \<lparr>Data = 0\<rparr> heap_init)) ''T''
          (Set_all \<lparr>Data = 0\<rparr> [(''Speed'', Float64 50)] (snd (Copy \<lparr>Data = 0\<rparr> heap_init))))
     = [''timestamp'' \<mapsto> Str ''T'']"
  using C10_copy_snapshot [of "\<lparr>Data = 0\<rparr>" heap_init "[(''Speed'', Float64 50)]" "''T''"]
  by (simp add: heap_init_def NewProtectedData_def make_map_def)

text \<open>A table that holds an entry under \<^verbatim>\<open>"timestamp"\<close>: the copy holds the entry, the
  serialisation emits the clock reading under that key instead.\<close>

theorem C10_counterexample:
  "maps (snd (Copy \<lparr>Data = 0\<rparr> heap_ts)) (cdm_data (fst (Copy \<lparr>Data = 0\<rparr> heap_ts))) ''timestamp''
     = Some (Float64 1) \<and>
   fst (copied_MarshalJSON (fst (Copy \<lparr>Data = 0\<rparr> heap_ts)) ''T'' (snd (Copy \<lparr>Data = 0\<rparr> heap_ts)))
       ''timestamp''
     = Some (Str ''T'')"
  by (simp add: Copy_fresh copied_MarshalJSON_def make_map_def range_assign_def map_assign_def
      Let_def heap_ts_def heap_init_def NewProtectedData_def Set_def)

end
